theory Spec2Isabelle
  imports Main "HOL-Library.AList"
begin

section \<open>Python values reaching \<open>supercell.api.cache\<close>\<close>

text \<open>
  The cache helpers receive \<^verbatim>\<open>datetime.timedelta\<close> objects (or \<^verbatim>\<open>None\<close>) for the two
  age parameters. A \<^verbatim>\<open>timedelta\<close> stores three integers, \<^verbatim>\<open>days\<close>, \<^verbatim>\<open>seconds\<close> and
  \<^verbatim>\<open>microseconds\<close>; the attribute \<^verbatim>\<open>.seconds\<close> read by the source is the second of the
  three, not the length of the duration in seconds.
\<close>

record timedelta =
  days :: int
  seconds :: int
  microseconds :: int

text \<open>The representation invariant the standard library keeps for every \<^verbatim>\<open>timedelta\<close>.\<close>

definition valid_timedelta :: "timedelta \<Rightarrow> bool" where
  "valid_timedelta td \<longleftrightarrow>
     - 999999999 \<le> days td \<and> days td \<le> 999999999 \<and>
     0 \<le> seconds td \<and> seconds td < 86400 \<and>
     0 \<le> microseconds td \<and> microseconds td < 1000000"

datatype error = TypeError | AttributeError | OverflowError | NoProvider

text \<open>
  \<^verbatim>\<open>timedelta(days=d, seconds=s, microseconds=us)\<close> on integer arguments: the value is
  normalised so that the invariant holds, and a day count out of range raises.
\<close>

definition py_timedelta :: "int \<Rightarrow> int \<Rightarrow> int \<Rightarrow> error + timedelta" where
  "py_timedelta d s us =
     (let total = (d * 86400 + s) * 1000000 + us;
          d' = total div 86400000000;
          r = total mod 86400000000
      in if d' < - 999999999 \<or> 999999999 < d' then Inl OverflowError
         else Inr \<lparr>days = d', seconds = r div 1000000, microseconds = r mod 1000000\<rparr>)"

text \<open>The whole seconds of a duration: \<^verbatim>\<open>td.total_seconds()\<close>, rounded down.\<close>

definition total_seconds :: "timedelta \<Rightarrow> int" where
  "total_seconds td = days td * 86400 + seconds td"

datatype pyval = PyNone | Timedelta timedelta

text \<open>Truth value of an object in an \<^verbatim>\<open>if\<close>: \<^verbatim>\<open>None\<close> is false, a \<^verbatim>\<open>timedelta\<close> is
  false exactly when it equals \<^verbatim>\<open>timedelta(0)\<close>.\<close>

fun truthy :: "pyval \<Rightarrow> bool" where
  "truthy PyNone = False"
| "truthy (Timedelta td) = (days td \<noteq> 0 \<or> seconds td \<noteq> 0 \<or> microseconds td \<noteq> 0)"

text \<open>The attribute access \<^verbatim>\<open>v.seconds\<close>; \<^verbatim>\<open>None\<close> has no such attribute.\<close>

fun getattr_seconds :: "pyval \<Rightarrow> error + int" where
  "getattr_seconds PyNone = Inl AttributeError"
| "getattr_seconds (Timedelta td) = Inr (seconds td)"

subsection \<open>Rendering integers and joining strings\<close>

definition digit_char :: "nat \<Rightarrow> char" where
  "digit_char d =
     (if d = 0 then CHR ''0'' else if d = 1 then CHR ''1'' else if d = 2 then CHR ''2''
      else if d = 3 then CHR ''3'' else if d = 4 then CHR ''4'' else if d = 5 then CHR ''5''
      else if d = 6 then CHR ''6'' else if d = 7 then CHR ''7'' else if d = 8 then CHR ''8''
      else CHR ''9'')"

fun str_nat :: "nat \<Rightarrow> string" where
  "str_nat n = (if n < 10 then [digit_char n] else str_nat (n div 10) @ [digit_char (n mod 10)])"

declare str_nat.simps [simp del]

text \<open>\<^verbatim>\<open>'%s' % i\<close> for an integer \<open>i\<close>: its decimal numeral, with a sign when negative.\<close>

definition str_int :: "int \<Rightarrow> string" where
  "str_int i = (if i < 0 then CHR ''-'' # str_nat (nat (- i)) else str_nat (nat i))"

text \<open>\<^verbatim>\<open>sep.join(xs)\<close>.\<close>

fun join :: "string \<Rightarrow> string list \<Rightarrow> string" where
  "join sep [] = []"
| "join sep [x] = x"
| "join sep (x # y # ys) = x @ sep @ join sep (y # ys)"

text \<open>
  \<^verbatim>\<open>s.split(', ')\<close>: the tokens of a header value. It is used to state what tokens a
  header contains; the source itself only joins.
\<close>

fun cons_first :: "char \<Rightarrow> string list \<Rightarrow> string list" where
  "cons_first c [] = [[c]]"
| "cons_first c (t # ts) = (c # t) # ts"

fun tokens :: "string \<Rightarrow> string list" where
  "tokens [] = [[]]"
| "tokens [c] = [[c]]"
| "tokens (c # d # cs) =
     (if c = CHR '','' \<and> d = CHR '' '' then [] # tokens cs else cons_first c (tokens (d # cs)))"

section \<open>The cache configuration\<close>

record CacheConfigT =
  max_age :: pyval
  s_max_age :: pyval
  public :: bool
  private' :: bool
  no_cache :: bool
  no_store :: bool
  must_revalidate :: bool
  proxy_revalidate :: bool

text \<open>
  The arguments of a call of \<^verbatim>\<open>CacheConfig\<close> or \<^verbatim>\<open>cache\<close>: \<open>None\<close> is an argument the
  caller left out. Both functions have the same signature and the same defaults.
\<close>

record call_args =
  arg_max_age :: "pyval option"
  arg_s_max_age :: "pyval option"
  arg_public :: "bool option"
  arg_private :: "bool option"
  arg_no_cache :: "bool option"
  arg_no_store :: "bool option"
  arg_must_revalidate :: "bool option"
  arg_proxy_revalidate :: "bool option"

definition default_to :: "'a \<Rightarrow> 'a option \<Rightarrow> 'a" where
  "default_to d a = (case a of None \<Rightarrow> d | Some v \<Rightarrow> v)"

text \<open>\<^verbatim>\<open>CacheConfig(max_age, s_max_age=None, public=False, private=False, no_cache=False,
  no_store=False, must_revalidate=True, proxy_revalidate=False)\<close>: the call raises
  \<^verbatim>\<open>TypeError\<close> when the positional argument is missing.\<close>

definition CacheConfig :: "call_args \<Rightarrow> error + CacheConfigT" where
  "CacheConfig a =
     (case arg_max_age a of
        None \<Rightarrow> Inl TypeError
      | Some m \<Rightarrow>
          Inr \<lparr>max_age = m,
               s_max_age = default_to PyNone (arg_s_max_age a),
               public = default_to False (arg_public a),
               private' = default_to False (arg_private a),
               no_cache = default_to False (arg_no_cache a),
               no_store = default_to False (arg_no_store a),
               must_revalidate = default_to True (arg_must_revalidate a),
               proxy_revalidate = default_to False (arg_proxy_revalidate a)\<rparr>)"

text \<open>A call that passes \<^verbatim>\<open>max_age\<close> only.\<close>

definition only_max_age :: "pyval \<Rightarrow> call_args" where
  "only_max_age m =
     \<lparr>arg_max_age = Some m, arg_s_max_age = None, arg_public = None, arg_private = None,
      arg_no_cache = None, arg_no_store = None, arg_must_revalidate = None,
      arg_proxy_revalidate = None\<rparr>"

section \<open>Computing the header\<close>

definition append_if :: "bool \<Rightarrow> string \<Rightarrow> string list \<Rightarrow> string list" where
  "append_if b tok params = (if b then params @ [tok] else params)"

text \<open>
  \<^verbatim>\<open>compute_cache_header\<close>, statement by statement: \<open>params\<close> starts empty, the
  \<^verbatim>\<open>max-age\<close> entry is appended unconditionally, each further entry under its \<^verbatim>\<open>if\<close>,
  and the list is joined. Reading \<^verbatim>\<open>.seconds\<close> of \<^verbatim>\<open>None\<close> raises.
\<close>

definition compute_cache_header :: "CacheConfigT \<Rightarrow> error + string" where
  "compute_cache_header cache_config =
     (case getattr_seconds (max_age cache_config) of
        Inl e \<Rightarrow> Inl e
      | Inr s \<Rightarrow>
          (let params = [] @ [''max-age='' @ str_int s] in
           case (if truthy (s_max_age cache_config)
                 then (case getattr_seconds (s_max_age cache_config) of
                         Inl e \<Rightarrow> Inl e
                       | Inr s' \<Rightarrow> Inr (params @ [''s-max-age='' @ str_int s']))
                 else Inr params) of
             Inl e \<Rightarrow> Inl e
           | Inr params \<Rightarrow>
               (let params = append_if (public cache_config) ''public'' params;
                    params = append_if (private' cache_config) ''private'' params;
                    params = append_if (no_cache cache_config) ''no-cache'' params;
                    params = append_if (no_store cache_config) ''no-store'' params;
                    params = append_if (must_revalidate cache_config) ''must-revalidate'' params;
                    params = append_if (proxy_revalidate cache_config) ''proxy-revalidate'' params
                in Inr (join '', '' params))))"

subsection \<open>The header as the specification words it\<close>

text \<open>
  A duration is set when it is neither \<^verbatim>\<open>None\<close> nor the zero duration.
\<close>

definition is_set :: "pyval \<Rightarrow> bool" where
  "is_set v =
     (case v of
        PyNone \<Rightarrow> False
      | Timedelta td \<Rightarrow> td \<noteq> \<lparr>days = 0, seconds = 0, microseconds = 0\<rparr>)"

text \<open>What the header shows for a duration: the numeral of its \<^verbatim>\<open>.seconds\<close> attribute.\<close>

definition rendered_seconds :: "pyval \<Rightarrow> string" where
  "rendered_seconds v = (case v of PyNone \<Rightarrow> [] | Timedelta td \<Rightarrow> str_int (seconds td))"

text \<open>
  The eight candidate tokens in the order of the specification, each with its triggering
  condition, and the tokens that remain when those with a false condition are left out.
\<close>

definition candidates :: "CacheConfigT \<Rightarrow> (bool \<times> string) list" where
  "candidates c =
     [(True, ''max-age='' @ rendered_seconds (max_age c)),
      (is_set (s_max_age c), ''s-max-age='' @ rendered_seconds (s_max_age c)),
      (public c, ''public''),
      (private' c, ''private''),
      (no_cache c, ''no-cache''),
      (no_store c, ''no-store''),
      (must_revalidate c, ''must-revalidate''),
      (proxy_revalidate c, ''proxy-revalidate'')]"

definition spec_tokens :: "CacheConfigT \<Rightarrow> string list" where
  "spec_tokens c = map snd (filter fst (candidates c))"

definition is_s_max_age_token :: "string \<Rightarrow> bool" where
  "is_s_max_age_token t \<longleftrightarrow> take 10 t = ''s-max-age=''"

section \<open>The decorator\<close>

text \<open>
  \<^verbatim>\<open>_func\<close>, the function that replaces the decorated handler method. The handler
  object is a state \<open>'h\<close>; its method \<^verbatim>\<open>set_header\<close> belongs to the web framework and is
  a parameter, a function from a header name, a value and the handler to the updated
  handler. The wrapped method \<open>fn\<close> takes the handler, the positional and the keyword
  arguments to an outcome \<open>'o\<close> (its result together with whatever it did to the handler).
  \<open>Inl e\<close> is an exception raised before \<open>set_header\<close> and \<open>fn\<close> were reached.
\<close>

definition func ::
  "pyval \<Rightarrow> pyval \<Rightarrow> bool \<Rightarrow> bool \<Rightarrow> bool \<Rightarrow> bool \<Rightarrow> bool \<Rightarrow> bool \<Rightarrow>
   ('h \<Rightarrow> 'a \<Rightarrow> 'k \<Rightarrow> 'o) \<Rightarrow> (string \<Rightarrow> string \<Rightarrow> 'h \<Rightarrow> 'h) \<Rightarrow> 'h \<Rightarrow> 'a \<Rightarrow> 'k \<Rightarrow> error + 'o" where
  "func max_age' s_max_age' public' private'' no_cache' no_store' must_revalidate'
        proxy_revalidate' fn set_header self args kwargs =
     (case CacheConfig
             \<lparr>arg_max_age = Some max_age', arg_s_max_age = Some s_max_age',
              arg_public = Some public', arg_private = Some private'',
              arg_no_cache = Some no_cache', arg_no_store = Some no_store',
              arg_must_revalidate = Some must_revalidate',
              arg_proxy_revalidate = Some proxy_revalidate'\<rparr> of
        Inl e \<Rightarrow> Inl e
      | Inr cache_config \<Rightarrow>
          (case compute_cache_header cache_config of
             Inl e \<Rightarrow> Inl e
           | Inr h \<Rightarrow> Inr (fn (set_header ''Cache-Control'' h self) args kwargs)))"

text \<open>
  \<^verbatim>\<open>cache(max_age, s_max_age=None, ...)\<close> binds its arguments, with its own defaults,
  and returns \<^verbatim>\<open>wrapper\<close>, which maps \<open>fn\<close> to \<^verbatim>\<open>_func\<close>.
\<close>

definition cache ::
  "call_args \<Rightarrow>
   error + (('h \<Rightarrow> 'a \<Rightarrow> 'k \<Rightarrow> 'o) \<Rightarrow> (string \<Rightarrow> string \<Rightarrow> 'h \<Rightarrow> 'h) \<Rightarrow> 'h \<Rightarrow> 'a \<Rightarrow> 'k \<Rightarrow> error + 'o)" where
  "cache a =
     (case arg_max_age a of
        None \<Rightarrow> Inl TypeError
      | Some m \<Rightarrow>
          Inr (func m
                 (default_to PyNone (arg_s_max_age a))
                 (default_to False (arg_public a))
                 (default_to False (arg_private a))
                 (default_to False (arg_no_cache a))
                 (default_to False (arg_no_store a))
                 (default_to True (arg_must_revalidate a))
                 (default_to False (arg_proxy_revalidate a))))"

text \<open>A handler with a header table, a status code and a body, to run the decorator on.\<close>

record handler =
  headers :: "(string \<times> string) list"
  status :: nat
  body :: string

definition set_header :: "string \<Rightarrow> string \<Rightarrow> handler \<Rightarrow> handler" where
  "set_header name v h = h\<lparr>headers := AList.update name v (headers h)\<rparr>"

text \<open>A handler method: it writes its arguments to the body and returns the status.\<close>

definition get :: "handler \<Rightarrow> string list \<Rightarrow> (string \<times> string) list \<Rightarrow> nat \<times> handler" where
  "get self args kwargs = (status self, self\<lparr>body := concat args @ concat (map snd kwargs)\<rparr>)"

section \<open>The provider registry\<close>

text \<open>
  Modelled from the spec: the \<^verbatim>\<open>ContentType\<close> value of \<^verbatim>\<open>supercell.api.metatypes\<close> (not
  among the sources), with a type, an optional vendor and an optional version; two are
  equal when all three fields are. The version \<^verbatim>\<open>1.0\<close> of the test module is the string
  that a content type string spells.
\<close>

record ContentType =
  mime_type :: string
  vendor :: "string option"
  version :: "string option"

text \<open>The provider classes of the test module.\<close>

datatype provider = JsonProvider | MoreDetailedJsonProvider | JsonProviderWithVendorAndVersion

fun split_at :: "char \<Rightarrow> string \<Rightarrow> (string \<times> string) option" where
  "split_at c [] = None"
| "split_at c (x # xs) =
     (if x = c then Some ([], xs)
      else (case split_at c xs of None \<Rightarrow> None | Some (a, b) \<Rightarrow> Some (x # a, b)))"

fun strip_prefix :: "string \<Rightarrow> string \<Rightarrow> string option" where
  "strip_prefix [] s = Some s"
| "strip_prefix (p # ps) [] = None"
| "strip_prefix (p # ps) (x # xs) = (if p = x then strip_prefix ps xs else None)"

fun split_version :: "string \<Rightarrow> (string \<times> string) option" where
  "split_version [] = None"
| "split_version [x] = None"
| "split_version (x # y # xs) =
     (if x = CHR ''-'' \<and> y = CHR ''v'' then Some ([], xs)
      else (case split_version (y # xs) of None \<Rightarrow> None | Some (a, b) \<Rightarrow> Some (x # a, b)))"

text \<open>
  Modelled from the spec: the parsing of a content type string, which
  \<^verbatim>\<open>supercell.api.provider\<close> and \<^verbatim>\<open>supercell.api.metatypes\<close> (not among the sources) perform.
  The three formats are \<^verbatim>\<open>application/json\<close>, \<^verbatim>\<open>application/vnd.<vendor>+json\<close> and
  \<^verbatim>\<open>application/vnd.<vendor>-v<version>+json\<close>; any other string is a bare type.
\<close>

definition parse_content_type :: "string \<Rightarrow> ContentType" where
  "parse_content_type s =
     (let bare = \<lparr>mime_type = s, vendor = None, version = None\<rparr> in
      case split_at (CHR ''/'') s of
        None \<Rightarrow> bare
      | Some (typ, sub) \<Rightarrow>
          (case strip_prefix ''vnd.'' sub of
             None \<Rightarrow> bare
           | Some rest \<Rightarrow>
               (case split_at (CHR ''+'') rest of
                  None \<Rightarrow> bare
                | Some (vpart, suffix) \<Rightarrow>
                    (case split_version vpart of
                       None \<Rightarrow>
                         \<lparr>mime_type = typ @ ''/'' @ suffix, vendor = Some vpart, version = None\<rparr>
                     | Some (v, ver) \<Rightarrow>
                         \<lparr>mime_type = typ @ ''/'' @ suffix, vendor = Some v,
                          version = Some ver\<rparr>))))"

text \<open>
  Modelled from the spec: \<^verbatim>\<open>ProviderBase.map_provider\<close> of \<^verbatim>\<open>supercell.api.provider\<close>
  (not among the sources), over a registry of the content types the provider classes
  declare. Resolution goes from the most to the least specific level: the exact match on
  type, vendor and version; the match on type and vendor with no version; the bare type
  with no vendor. When no level matches there is no provider.
\<close>

definition resolve :: "(ContentType \<times> 'p) list \<Rightarrow> ContentType \<Rightarrow> error + 'p" where
  "resolve registry ct =
     (case map_of registry ct of
        Some p \<Rightarrow> Inr p
      | None \<Rightarrow>
          (case map_of registry (ct\<lparr>version := None\<rparr>) of
             Some p \<Rightarrow> Inr p
           | None \<Rightarrow>
               (case map_of registry \<lparr>mime_type = mime_type ct, vendor = None, version = None\<rparr> of
                  Some p \<Rightarrow> Inr p
                | None \<Rightarrow> Inl NoProvider)))"

text \<open>
  Modelled from the spec: the lookup by string, as the test module calls it; the string is
  parsed and the content type resolved.
\<close>

definition map_provider :: "(ContentType \<times> 'p) list \<Rightarrow> string \<Rightarrow> error + 'p" where
  "map_provider registry s = resolve registry (parse_content_type s)"

text \<open>The registry of the test module: \<^verbatim>\<open>JsonProvider\<close> for the bare type and the two
  classes the test declares.\<close>

definition test_registry :: "(ContentType \<times> provider) list" where
  "test_registry =
     [(\<lparr>mime_type = ''application/json'', vendor = None, version = None\<rparr>, JsonProvider),
      (\<lparr>mime_type = ''application/json'', vendor = Some ''supercell'', version = None\<rparr>,
       MoreDetailedJsonProvider),
      (\<lparr>mime_type = ''application/json'', vendor = Some ''supercell'', version = Some ''1.0''\<rparr>,
       JsonProviderWithVendorAndVersion)]"

section \<open>Example values\<close>

text \<open>\<^verbatim>\<open>timedelta(minutes=10)\<close>, \<^verbatim>\<open>timedelta(days=1)\<close> and \<^verbatim>\<open>timedelta(0)\<close>.\<close>

definition ten_minutes :: timedelta where
  "ten_minutes = \<lparr>days = 0, seconds = 600, microseconds = 0\<rparr>"

definition one_day :: timedelta where
  "one_day = \<lparr>days = 1, seconds = 0, microseconds = 0\<rparr>"

definition zero_duration :: timedelta where
  "zero_duration = \<lparr>days = 0, seconds = 0, microseconds = 0\<rparr>"

text \<open>\<^verbatim>\<open>CacheConfig(timedelta(minutes=10), public=True)\<close>.\<close>

definition public_ten_minutes :: CacheConfigT where
  "public_ten_minutes =
     \<lparr>max_age = Timedelta ten_minutes, s_max_age = PyNone, public = True, private' = False,
      no_cache = False, no_store = False, must_revalidate = True, proxy_revalidate = False\<rparr>"

text \<open>\<^verbatim>\<open>CacheConfig(timedelta(minutes=10), s_max_age=timedelta(days=1),
  must_revalidate=False)\<close>.\<close>

definition shared_one_day :: CacheConfigT where
  "shared_one_day =
     \<lparr>max_age = Timedelta ten_minutes, s_max_age = Timedelta one_day, public = False,
      private' = False, no_cache = False, no_store = False, must_revalidate = False,
      proxy_revalidate = False\<rparr>"

text \<open>\<^verbatim>\<open>CacheConfig(timedelta(0), s_max_age=timedelta(0))\<close>.\<close>

definition all_zero :: CacheConfigT where
  "all_zero =
     \<lparr>max_age = Timedelta zero_duration, s_max_age = Timedelta zero_duration, public = False,
      private' = False, no_cache = False, no_store = False, must_revalidate = True,
      proxy_revalidate = False\<rparr>"

text \<open>\<^verbatim>\<open>timedelta(days=1, seconds=30)\<close>, a duration of 86430 seconds.\<close>

definition one_day_thirty :: timedelta where
  "one_day_thirty = \<lparr>days = 1, seconds = 30, microseconds = 0\<rparr>"

text \<open>The arguments of \<^verbatim>\<open>@cache(timedelta(minutes=10), public=True, no_cache=True,
  must_revalidate=False)\<close>.\<close>

definition public_no_cache_args :: call_args where
  "public_no_cache_args =
     \<lparr>arg_max_age = Some (Timedelta ten_minutes), arg_s_max_age = None,
      arg_public = Some True, arg_private = None, arg_no_cache = Some True,
      arg_no_store = None, arg_must_revalidate = Some False, arg_proxy_revalidate = None\<rparr>"

text \<open>The call \<^verbatim>\<open>CacheConfig()\<close>, with no argument at all.\<close>

definition no_args :: call_args where
  "no_args =
     \<lparr>arg_max_age = None, arg_s_max_age = None, arg_public = None, arg_private = None,
      arg_no_cache = None, arg_no_store = None, arg_must_revalidate = None,
      arg_proxy_revalidate = None\<rparr>"

section \<open>Facts about the Python values\<close>

lemma py_timedelta_valid: "py_timedelta d s us = Inr td \<Longrightarrow> valid_timedelta td"
  by (auto simp: py_timedelta_def valid_timedelta_def Let_def split: if_splits)

text \<open>The attribute \<^verbatim>\<open>.seconds\<close> is the length of the duration only below one day.\<close>

lemma seconds_total:
  "valid_timedelta td \<Longrightarrow> (seconds td = total_seconds td \<longleftrightarrow> days td = 0)"
  by (simp add: total_seconds_def)

lemma is_set_truthy: "is_set v = truthy v"
proof (cases v)
  case PyNone
  then show ?thesis by (simp add: is_set_def)
next
  case (Timedelta td)
  then show ?thesis by (cases td) (auto simp: is_set_def)
qed

lemma str_int_zero: "str_int 0 = ''0''"
  by (simp add: str_int_def str_nat.simps digit_char_def)

lemma str_int_600: "str_int 600 = ''600''"
  by (simp add: str_int_def str_nat.simps digit_char_def)

lemma str_int_30: "str_int 30 = ''30''"
  by (simp add: str_int_def str_nat.simps digit_char_def)

lemma str_int_86430: "str_int 86430 = ''86430''"
  by (simp add: str_int_def str_nat.simps digit_char_def)

lemma str_int_86400: "str_int 86400 = ''86400''"
  by (simp add: str_int_def str_nat.simps digit_char_def)

lemma digit_char_not_comma: "CHR '','' \<noteq> digit_char d"
  by (simp add: digit_char_def)

lemma str_nat_comma_free: "CHR '','' \<notin> set (str_nat n)"
proof (induction n rule: str_nat.induct)
  case (1 n)
  show ?case
  proof (cases "n < 10")
    case True
    then show ?thesis by (subst str_nat.simps) (simp add: digit_char_not_comma)
  next
    case False
    with 1 show ?thesis by (subst str_nat.simps) (simp add: digit_char_not_comma)
  qed
qed

lemma str_int_comma_free: "CHR '','' \<notin> set (str_int i)"
  by (simp add: str_int_def str_nat_comma_free)

lemma rendered_seconds_comma_free: "CHR '','' \<notin> set (rendered_seconds v)"
  by (cases v) (simp_all add: rendered_seconds_def str_int_comma_free)

section \<open>Splitting a joined list\<close>

lemma tokens_comma_free: "CHR '','' \<notin> set x \<Longrightarrow> tokens x = [x]"
  by (induction x rule: tokens.induct) auto

lemma tokens_append_sep:
  "CHR '','' \<notin> set x \<Longrightarrow> tokens (x @ '', '' @ r) = x # tokens r"
proof (induction x)
  case Nil
  show ?case by simp
next
  case (Cons c x)
  then have c: "c \<noteq> CHR '',''" and ih: "tokens (x @ '', '' @ r) = x # tokens r"
    by auto
  show ?case
  proof (cases x)
    case Nil
    with c show ?thesis by simp
  next
    case (Cons d x')
    with c ih show ?thesis by simp
  qed
qed

text \<open>Splitting undoes joining when no entry holds a comma and there is an entry at all.\<close>

lemma tokens_join:
  "xs \<noteq> [] \<Longrightarrow> \<forall>x \<in> set xs. CHR '','' \<notin> set x \<Longrightarrow> tokens (join '', '' xs) = xs"
proof (induction "'', ''" xs rule: join.induct)
  case 1
  then show ?case by simp
next
  case (2 x)
  then show ?case by (simp add: tokens_comma_free)
next
  case (3 x y ys)
  from 3 have x: "CHR '','' \<notin> set x" and ih: "tokens (join '', '' (y # ys)) = y # ys"
    by auto
  have "tokens (join '', '' (x # y # ys)) = tokens (x @ '', '' @ join '', '' (y # ys))"
    by (simp only: join.simps)
  also have "\<dots> = x # tokens (join '', '' (y # ys))"
    using x by (rule tokens_append_sep)
  finally show ?case using ih by simp
qed

lemma join_nonempty: "xs \<noteq> [] \<Longrightarrow> hd xs \<noteq> [] \<Longrightarrow> join sep xs \<noteq> []"
  by (induction sep xs rule: join.induct) auto

section \<open>The header is the join of the specified tokens\<close>

lemma compute_cache_header_eq:
  assumes "max_age c = Timedelta td"
  shows "compute_cache_header c = Inr (join '', '' (spec_tokens c))"
proof (cases "s_max_age c")
  case PyNone
  with assms show ?thesis
    by (simp add: compute_cache_header_def spec_tokens_def candidates_def append_if_def
        is_set_truthy rendered_seconds_def)
next
  case (Timedelta sd)
  with assms show ?thesis
    by (simp add: compute_cache_header_def spec_tokens_def candidates_def append_if_def
        is_set_truthy rendered_seconds_def)
qed

lemma candidates_comma_free: "\<forall>x \<in> set (candidates c). CHR '','' \<notin> set (snd x)"
  by (simp add: candidates_def rendered_seconds_comma_free)

lemma spec_tokens_comma_free: "\<forall>t \<in> set (spec_tokens c). CHR '','' \<notin> set t"
  using candidates_comma_free [of c] by (auto simp: spec_tokens_def)

lemma spec_tokens_first:
  "spec_tokens c = (''max-age='' @ rendered_seconds (max_age c)) # tl (spec_tokens c)"
  by (simp add: spec_tokens_def candidates_def)

lemma spec_tokens_nonempty: "spec_tokens c \<noteq> []"
  by (subst spec_tokens_first) simp

lemma tokens_header: "tokens (join '', '' (spec_tokens c)) = spec_tokens c"
  by (rule tokens_join [OF spec_tokens_nonempty spec_tokens_comma_free])

lemma in_spec_tokens: "t \<in> set (spec_tokens c) \<longleftrightarrow> (True, t) \<in> set (candidates c)"
  by (force simp: spec_tokens_def)

lemma filter_map_snd_filter_fst:
  "filter P (map snd (filter fst cs)) = map snd (filter (\<lambda>x. fst x \<and> P (snd x)) cs)"
  by (induction cs) auto

lemma filter_s_max_age_tokens:
  "filter is_s_max_age_token (spec_tokens c) =
     (if is_set (s_max_age c) then [''s-max-age='' @ rendered_seconds (s_max_age c)] else [])"
  unfolding spec_tokens_def filter_map_snd_filter_fst candidates_def
  by (simp add: is_s_max_age_token_def)

lemma must_revalidate_in_spec_tokens:
  "''must-revalidate'' \<in> set (spec_tokens c) \<longleftrightarrow> must_revalidate c"
  unfolding in_spec_tokens candidates_def by simp

lemma header_public_ten_minutes:
  "join '', '' (spec_tokens public_ten_minutes) = ''max-age=600, public, must-revalidate''"
  by (simp add: spec_tokens_def candidates_def public_ten_minutes_def ten_minutes_def
      rendered_seconds_def is_set_def str_int_600)

lemma header_shared_one_day:
  "join '', '' (spec_tokens shared_one_day) = ''max-age=600, s-max-age=0''"
  by (simp add: spec_tokens_def candidates_def shared_one_day_def ten_minutes_def one_day_def
      rendered_seconds_def is_set_def str_int_600 str_int_zero)

lemma header_all_zero:
  "join '', '' (spec_tokens all_zero) = ''max-age=0, must-revalidate''"
  by (simp add: spec_tokens_def candidates_def all_zero_def zero_duration_def
      rendered_seconds_def is_set_def str_int_zero)

section \<open>The claims about \<open>compute_cache_header\<close>\<close>

text \<open>
  C1. The claim: the \<^verbatim>\<open>max-age\<close> token carries the integer total seconds of \<open>max_age\<close>, so
  that two days render as \<^verbatim>\<open>max-age=172800\<close>. The source formats \<^verbatim>\<open>max_age.seconds\<close>, the
  seconds field of the duration, which leaves the days out: for
  \<^verbatim>\<open>CacheConfig(timedelta(days=2))\<close>, a duration of 172800 seconds, the header is
  \<^verbatim>\<open>max-age=0, must-revalidate\<close>.
\<close>

theorem two_days_max_age:
  "py_timedelta 2 0 0 = Inr \<lparr>days = 2, seconds = 0, microseconds = 0\<rparr> \<and>
   total_seconds \<lparr>days = 2, seconds = 0, microseconds = 0\<rparr> = 172800 \<and>
   CacheConfig (only_max_age (Timedelta \<lparr>days = 2, seconds = 0, microseconds = 0\<rparr>)) =
     Inr \<lparr>max_age = Timedelta \<lparr>days = 2, seconds = 0, microseconds = 0\<rparr>, s_max_age = PyNone,
          public = False, private' = False, no_cache = False, no_store = False,
          must_revalidate = True, proxy_revalidate = False\<rparr> \<and>
   compute_cache_header
     \<lparr>max_age = Timedelta \<lparr>days = 2, seconds = 0, microseconds = 0\<rparr>, s_max_age = PyNone,
      public = False, private' = False, no_cache = False, no_store = False,
      must_revalidate = True, proxy_revalidate = False\<rparr> = Inr ''max-age=0, must-revalidate''"
  by (simp add: py_timedelta_def total_seconds_def CacheConfig_def only_max_age_def
      default_to_def compute_cache_header_def append_if_def str_int_zero)

text \<open>
  C2. For every configuration whose \<open>max_age\<close> is a duration, the header is the eight
  candidate tokens in the order \<^verbatim>\<open>max-age\<close>, \<^verbatim>\<open>s-max-age\<close>, \<^verbatim>\<open>public\<close>, \<^verbatim>\<open>private\<close>,
  \<^verbatim>\<open>no-cache\<close>, \<^verbatim>\<open>no-store\<close>, \<^verbatim>\<open>must-revalidate\<close>, \<^verbatim>\<open>proxy-revalidate\<close>, without those
  whose condition is false, joined by a comma and a space; splitting the header at that
  separator gives back exactly these tokens. The two numeric tokens carry what the source
  renders, the numeral of the \<^verbatim>\<open>.seconds\<close> attribute.
\<close>

theorem compute_cache_header_token_order:
  assumes "max_age c = Timedelta td"
  shows "compute_cache_header c = Inr (join '', '' (spec_tokens c)) \<and>
         tokens (join '', '' (spec_tokens c)) = spec_tokens c"
  using compute_cache_header_eq [OF assms] tokens_header by simp

theorem compute_cache_header_token_order_witness:
  "max_age public_ten_minutes = Timedelta ten_minutes \<and>
   compute_cache_header public_ten_minutes = Inr ''max-age=600, public, must-revalidate'' \<and>
   tokens ''max-age=600, public, must-revalidate'' =
     spec_tokens public_ten_minutes"
proof -
  have m: "max_age public_ten_minutes = Timedelta ten_minutes"
    by (simp add: public_ten_minutes_def)
  show ?thesis
    using m compute_cache_header_token_order [OF m] by (simp add: header_public_ten_minutes)
qed

text \<open>
  A configuration built with \<open>max_age\<close> alone has every other field at its default, and
  the source gives it the header \<^verbatim>\<open>max-age=<n>, must-revalidate\<close> with \<open>n\<close> the numeral of
  the \<^verbatim>\<open>.seconds\<close> attribute of \<open>max_age\<close>.
\<close>

lemma only_max_age_header_seconds:
  "CacheConfig (only_max_age (Timedelta td)) =
     Inr \<lparr>max_age = Timedelta td, s_max_age = PyNone, public = False, private' = False,
          no_cache = False, no_store = False, must_revalidate = True,
          proxy_revalidate = False\<rparr> \<and>
   compute_cache_header
     \<lparr>max_age = Timedelta td, s_max_age = PyNone, public = False, private' = False,
      no_cache = False, no_store = False, must_revalidate = True,
      proxy_revalidate = False\<rparr> =
     Inr (''max-age='' @ str_int (seconds td) @ '', must-revalidate'')"
  by (simp add: CacheConfig_def only_max_age_def default_to_def compute_cache_header_def
      append_if_def)

text \<open>
  C3. The claim: with \<open>max_age\<close> alone the header is exactly
  \<^verbatim>\<open>max-age=<N>, must-revalidate\<close>, \<open>N\<close> being the seconds of \<open>max_age\<close>. The shape is as
  claimed, the number is not: for \<^verbatim>\<open>CacheConfig(timedelta(days=1, seconds=30))\<close>, a
  duration of 86430 seconds, the claimed header is \<^verbatim>\<open>max-age=86430, must-revalidate\<close> and
  the source returns \<^verbatim>\<open>max-age=30, must-revalidate\<close>.
\<close>

theorem only_max_age_one_day_thirty:
  "py_timedelta 1 30 0 = Inr one_day_thirty \<and>
   total_seconds one_day_thirty = 86430 \<and>
   ''max-age='' @ str_int (total_seconds one_day_thirty) @ '', must-revalidate'' =
     ''max-age=86430, must-revalidate'' \<and>
   CacheConfig (only_max_age (Timedelta one_day_thirty)) =
     Inr \<lparr>max_age = Timedelta one_day_thirty, s_max_age = PyNone, public = False,
          private' = False, no_cache = False, no_store = False, must_revalidate = True,
          proxy_revalidate = False\<rparr> \<and>
   compute_cache_header
     \<lparr>max_age = Timedelta one_day_thirty, s_max_age = PyNone, public = False,
      private' = False, no_cache = False, no_store = False, must_revalidate = True,
      proxy_revalidate = False\<rparr> = Inr ''max-age=30, must-revalidate''"
proof -
  have t: "total_seconds one_day_thirty = 86430"
    by (simp add: total_seconds_def one_day_thirty_def)
  have s: "str_int (seconds one_day_thirty) = ''30''"
    by (simp add: one_day_thirty_def str_int_30)
  have "py_timedelta 1 30 0 = Inr one_day_thirty"
    by (simp add: py_timedelta_def one_day_thirty_def)
  with t s only_max_age_header_seconds [of one_day_thirty] show ?thesis
    by (simp add: str_int_86430)
qed

text \<open>
  Presence of the \<^verbatim>\<open>s-max-age\<close> token: for every configuration whose \<open>max_age\<close> is a
  duration, the header has a token starting with \<^verbatim>\<open>s-max-age=\<close> if and only if
  \<open>s_max_age\<close> is set, that is neither \<^verbatim>\<open>None\<close> nor the zero duration, and never more
  than one.
\<close>

lemma s_max_age_token_presence:
  assumes "max_age c = Timedelta td"
  shows "\<exists>h. compute_cache_header c = Inr h \<and>
           ((\<exists>t \<in> set (tokens h). is_s_max_age_token t) \<longleftrightarrow> is_set (s_max_age c)) \<and>
           length (filter is_s_max_age_token (tokens h)) \<le> 1"
proof -
  let ?h = "join '', '' (spec_tokens c)"
  have h: "compute_cache_header c = Inr ?h"
    by (rule compute_cache_header_eq [OF assms])
  have f: "filter is_s_max_age_token (tokens ?h) =
      (if is_set (s_max_age c) then [''s-max-age='' @ rendered_seconds (s_max_age c)] else [])"
    by (simp only: tokens_header filter_s_max_age_tokens)
  have "(\<exists>t \<in> set (tokens ?h). is_s_max_age_token t) \<longleftrightarrow>
      filter is_s_max_age_token (tokens ?h) \<noteq> []"
    by (simp add: filter_empty_conv)
  with f have "(\<exists>t \<in> set (tokens ?h). is_s_max_age_token t) \<longleftrightarrow> is_set (s_max_age c)"
    by simp
  with h f show ?thesis by simp
qed

text \<open>
  C4. The claim: an \<^verbatim>\<open>s-max-age\<close> token is in the header if and only if \<open>s_max_age\<close> is
  set, and its value is the seconds of \<open>s_max_age\<close>. The presence is as claimed, the value
  is not: the source formats \<^verbatim>\<open>s_max_age.seconds\<close>, so for
  \<^verbatim>\<open>CacheConfig(timedelta(minutes=10), s_max_age=timedelta(days=1), must_revalidate=False)\<close>,
  whose \<open>s_max_age\<close> is set and lasts 86400 seconds, the claimed token is
  \<^verbatim>\<open>s-max-age=86400\<close> and the source returns \<^verbatim>\<open>max-age=600, s-max-age=0\<close>.
\<close>

theorem one_day_s_max_age:
  "s_max_age shared_one_day = Timedelta one_day \<and>
   py_timedelta 1 0 0 = Inr one_day \<and>
   is_set (s_max_age shared_one_day) \<and>
   total_seconds one_day = 86400 \<and>
   ''s-max-age='' @ str_int (total_seconds one_day) = ''s-max-age=86400'' \<and>
   compute_cache_header shared_one_day = Inr ''max-age=600, s-max-age=0'' \<and>
   tokens ''max-age=600, s-max-age=0'' = [''max-age=600'', ''s-max-age=0'']"
proof -
  have m: "max_age shared_one_day = Timedelta ten_minutes"
    by (simp add: shared_one_day_def)
  have h: "compute_cache_header shared_one_day = Inr ''max-age=600, s-max-age=0''"
    using compute_cache_header_eq [OF m] by (simp add: header_shared_one_day)
  have t: "total_seconds one_day = 86400"
    by (simp add: total_seconds_def one_day_def)
  have "py_timedelta 1 0 0 = Inr one_day"
    by (simp add: py_timedelta_def one_day_def)
  moreover have "is_set (s_max_age shared_one_day)"
    by (simp add: shared_one_day_def one_day_def is_set_def)
  moreover have "s_max_age shared_one_day = Timedelta one_day"
    by (simp add: shared_one_day_def)
  ultimately show ?thesis
    using h t by (simp add: str_int_86400)
qed

text \<open>
  C5. For every configuration built by \<^verbatim>\<open>CacheConfig\<close> whose \<open>max_age\<close> is a duration,
  the header has the token \<^verbatim>\<open>must-revalidate\<close> if and only if \<open>must_revalidate\<close> is
  true, and that field is true unless the caller passed \<^verbatim>\<open>must_revalidate=False\<close>: the
  token is present by default and absent when the flag is switched off.
\<close>

theorem must_revalidate_token_iff:
  assumes "CacheConfig a = Inr c" and "max_age c = Timedelta td"
  shows "\<exists>h. compute_cache_header c = Inr h \<and>
           (''must-revalidate'' \<in> set (tokens h) \<longleftrightarrow> must_revalidate c) \<and>
           (must_revalidate c \<longleftrightarrow> arg_must_revalidate a \<noteq> Some False)"
proof -
  have "must_revalidate c \<longleftrightarrow> arg_must_revalidate a \<noteq> Some False"
    using assms(1) by (auto simp: CacheConfig_def default_to_def split: option.splits)
  moreover have "compute_cache_header c = Inr (join '', '' (spec_tokens c))"
    by (rule compute_cache_header_eq [OF assms(2)])
  ultimately show ?thesis
    by (simp add: tokens_header must_revalidate_in_spec_tokens)
qed

theorem must_revalidate_token_iff_witness:
  "CacheConfig ((only_max_age (Timedelta ten_minutes))\<lparr>arg_must_revalidate := Some False\<rparr>) =
     Inr \<lparr>max_age = Timedelta ten_minutes, s_max_age = PyNone, public = False,
          private' = False, no_cache = False, no_store = False, must_revalidate = False,
          proxy_revalidate = False\<rparr> \<and>
   (\<exists>h. compute_cache_header
          \<lparr>max_age = Timedelta ten_minutes, s_max_age = PyNone, public = False,
           private' = False, no_cache = False, no_store = False, must_revalidate = False,
           proxy_revalidate = False\<rparr> = Inr h \<and>
        ''must-revalidate'' \<notin> set (tokens h))"
proof -
  let ?a = "(only_max_age (Timedelta ten_minutes))\<lparr>arg_must_revalidate := Some False\<rparr>"
  let ?c = "\<lparr>max_age = Timedelta ten_minutes, s_max_age = PyNone, public = False,
          private' = False, no_cache = False, no_store = False, must_revalidate = False,
          proxy_revalidate = False\<rparr>"
  have a: "CacheConfig ?a = Inr ?c"
    by (simp add: CacheConfig_def only_max_age_def default_to_def)
  have m: "max_age ?c = Timedelta ten_minutes"
    by simp
  show ?thesis
    using a must_revalidate_token_iff [OF a m] by simp
qed

text \<open>
  C9. The header depends on nothing but the value of the configuration: any configuration
  equal to \<open>c\<close> field by field gives the same outcome as \<open>c\<close>, and when \<open>max_age\<close> is a
  duration that outcome is a string.
\<close>

theorem compute_cache_header_deterministic:
  "(\<forall>c'. max_age c' = max_age c \<and> s_max_age c' = s_max_age c \<and> public c' = public c \<and>
         private' c' = private' c \<and> no_cache c' = no_cache c \<and> no_store c' = no_store c \<and>
         must_revalidate c' = must_revalidate c \<and> proxy_revalidate c' = proxy_revalidate c
         \<longrightarrow> compute_cache_header c' = compute_cache_header c) \<and>
   (\<forall>td. max_age c = Timedelta td \<longrightarrow> (\<exists>h. compute_cache_header c = Inr h))"
proof (intro conjI allI impI)
  fix c' :: CacheConfigT
  assume "max_age c' = max_age c \<and> s_max_age c' = s_max_age c \<and> public c' = public c \<and>
         private' c' = private' c \<and> no_cache c' = no_cache c \<and> no_store c' = no_store c \<and>
         must_revalidate c' = must_revalidate c \<and> proxy_revalidate c' = proxy_revalidate c"
  then have "c' = c" by simp
  then show "compute_cache_header c' = compute_cache_header c" by simp
next
  fix td assume "max_age c = Timedelta td"
  then show "\<exists>h. compute_cache_header c = Inr h"
    using compute_cache_header_eq by blast
qed

theorem compute_cache_header_deterministic_witness:
  "compute_cache_header
     \<lparr>max_age = Timedelta ten_minutes, s_max_age = PyNone, public = True, private' = False,
      no_cache = False, no_store = False, must_revalidate = True, proxy_revalidate = False\<rparr> =
     compute_cache_header public_ten_minutes \<and>
   (\<exists>h. compute_cache_header public_ten_minutes = Inr h)"
proof -
  let ?c' = "\<lparr>max_age = Timedelta ten_minutes, s_max_age = PyNone, public = True,
      private' = False, no_cache = False, no_store = False, must_revalidate = True,
      proxy_revalidate = False\<rparr>"
  note d = compute_cache_header_deterministic [of public_ten_minutes]
  have m: "max_age public_ten_minutes = Timedelta ten_minutes"
    by (simp add: public_ten_minutes_def)
  have "compute_cache_header ?c' = compute_cache_header public_ten_minutes"
    using d [THEN conjunct1, rule_format, of ?c'] by (simp add: public_ten_minutes_def)
  moreover have "\<exists>h. compute_cache_header public_ten_minutes = Inr h"
    using d [THEN conjunct2, rule_format, OF m] .
  ultimately show ?thesis by simp
qed

text \<open>
  C10. For every configuration whose \<open>max_age\<close> is a duration, the header is not empty
  and its first token is the \<^verbatim>\<open>max-age\<close> token, also for the zero duration, for which
  an \<^verbatim>\<open>s-max-age\<close> token would be left out.
\<close>

theorem max_age_token_first:
  assumes "max_age c = Timedelta td"
  shows "\<exists>h rest. compute_cache_header c = Inr h \<and> h \<noteq> [] \<and>
           tokens h = (''max-age='' @ str_int (seconds td)) # rest"
proof -
  let ?h = "join '', '' (spec_tokens c)"
  have h: "compute_cache_header c = Inr ?h"
    by (rule compute_cache_header_eq [OF assms])
  have first: "spec_tokens c = (''max-age='' @ str_int (seconds td)) # tl (spec_tokens c)"
    using spec_tokens_first [of c] assms by (simp add: rendered_seconds_def)
  then have "hd (spec_tokens c) \<noteq> []"
    by (metis append_is_Nil_conv list.sel(1) list.distinct(1))
  then have "?h \<noteq> []"
    by (rule join_nonempty [OF spec_tokens_nonempty])
  moreover have "tokens ?h = (''max-age='' @ str_int (seconds td)) # tl (spec_tokens c)"
    using first tokens_header [of c] by simp
  ultimately show ?thesis using h by blast
qed

theorem max_age_token_first_witness:
  "max_age all_zero = Timedelta zero_duration \<and>
   s_max_age all_zero = Timedelta zero_duration \<and>
   compute_cache_header all_zero = Inr ''max-age=0, must-revalidate'' \<and>
   (\<exists>rest. tokens ''max-age=0, must-revalidate'' = ''max-age=0'' # rest)"
proof -
  have m: "max_age all_zero = Timedelta zero_duration"
    and s: "s_max_age all_zero = Timedelta zero_duration"
    by (simp_all add: all_zero_def)
  have h: "compute_cache_header all_zero = Inr ''max-age=0, must-revalidate''"
    using compute_cache_header_eq [OF m] by (simp add: header_all_zero)
  from max_age_token_first [OF m] h
  have "\<exists>rest. tokens ''max-age=0, must-revalidate'' = ''max-age=0'' # rest"
    by (simp add: zero_duration_def str_int_zero)
  with m s h show ?thesis by simp
qed

section \<open>The claims about construction and the decorator\<close>

text \<open>The configuration \<^verbatim>\<open>_func\<close> builds from the bound arguments is the one
  \<^verbatim>\<open>CacheConfig\<close> builds from the arguments of the decorator.\<close>

lemma CacheConfig_explicit:
  "arg_max_age a = Some m \<Longrightarrow>
   CacheConfig
     \<lparr>arg_max_age = Some m, arg_s_max_age = Some (default_to PyNone (arg_s_max_age a)),
      arg_public = Some (default_to False (arg_public a)),
      arg_private = Some (default_to False (arg_private a)),
      arg_no_cache = Some (default_to False (arg_no_cache a)),
      arg_no_store = Some (default_to False (arg_no_store a)),
      arg_must_revalidate = Some (default_to True (arg_must_revalidate a)),
      arg_proxy_revalidate = Some (default_to False (arg_proxy_revalidate a))\<rparr> =
   CacheConfig a"
  by (simp add: CacheConfig_def default_to_def)

text \<open>
  C6. For every handler \<open>self\<close>, wrapped method \<open>fn\<close> and arguments \<open>args\<close>, \<open>kwargs\<close>,
  when the decorator was given a duration as \<open>max_age\<close>: the decorated function returns
  what \<open>fn\<close> returns on the handler \<open>set_header('Cache-Control', h)\<close> leaves behind, with
  \<open>args\<close> and \<open>kwargs\<close> as they came. Here \<open>h\<close> is the header of the directives given to
  the decorator: each field is the argument passed, or the default when none was passed.
  Every observation \<open>obs\<close> of the handler that \<open>set_header\<close> itself keeps (the status
  code, the body) is the same for \<open>fn\<close> as it was on entry.
\<close>

theorem cache_sets_header_then_calls:
  assumes "arg_max_age a = Some (Timedelta td)"
    and "\<And>name v x. obs (set_hdr name v x) = obs x"
  shows "\<exists>h w self'.
           compute_cache_header
             \<lparr>max_age = Timedelta td,
              s_max_age = (case arg_s_max_age a of None \<Rightarrow> PyNone | Some v \<Rightarrow> v),
              public = (case arg_public a of None \<Rightarrow> False | Some b \<Rightarrow> b),
              private' = (case arg_private a of None \<Rightarrow> False | Some b \<Rightarrow> b),
              no_cache = (case arg_no_cache a of None \<Rightarrow> False | Some b \<Rightarrow> b),
              no_store = (case arg_no_store a of None \<Rightarrow> False | Some b \<Rightarrow> b),
              must_revalidate = (case arg_must_revalidate a of None \<Rightarrow> True | Some b \<Rightarrow> b),
              proxy_revalidate =
                (case arg_proxy_revalidate a of None \<Rightarrow> False | Some b \<Rightarrow> b)\<rparr> = Inr h \<and>
           cache a = Inr w \<and> self' = set_hdr ''Cache-Control'' h self \<and>
           w fn set_hdr self args kwargs = Inr (fn self' args kwargs) \<and>
           obs self' = obs self"
proof -
  let ?c = "\<lparr>max_age = Timedelta td,
              s_max_age = (case arg_s_max_age a of None \<Rightarrow> PyNone | Some v \<Rightarrow> v),
              public = (case arg_public a of None \<Rightarrow> False | Some b \<Rightarrow> b),
              private' = (case arg_private a of None \<Rightarrow> False | Some b \<Rightarrow> b),
              no_cache = (case arg_no_cache a of None \<Rightarrow> False | Some b \<Rightarrow> b),
              no_store = (case arg_no_store a of None \<Rightarrow> False | Some b \<Rightarrow> b),
              must_revalidate = (case arg_must_revalidate a of None \<Rightarrow> True | Some b \<Rightarrow> b),
              proxy_revalidate =
                (case arg_proxy_revalidate a of None \<Rightarrow> False | Some b \<Rightarrow> b)\<rparr>"
  have c: "CacheConfig a = Inr ?c"
    using assms(1) by (simp add: CacheConfig_def default_to_def)
  have m: "max_age ?c = Timedelta td"
    by simp
  let ?h = "join '', '' (spec_tokens ?c)"
  have h: "compute_cache_header ?c = Inr ?h"
    by (rule compute_cache_header_eq [OF m])
  let ?w = "func (Timedelta td)
                 (default_to PyNone (arg_s_max_age a))
                 (default_to False (arg_public a))
                 (default_to False (arg_private a))
                 (default_to False (arg_no_cache a))
                 (default_to False (arg_no_store a))
                 (default_to True (arg_must_revalidate a))
                 (default_to False (arg_proxy_revalidate a))"
  have w: "cache a = Inr ?w"
    using assms(1) by (simp add: cache_def)
  have run: "?w fn set_hdr self args kwargs =
      Inr (fn (set_hdr ''Cache-Control'' ?h self) args kwargs)"
    unfolding func_def CacheConfig_explicit [OF assms(1)] c using h by simp
  have "obs (set_hdr ''Cache-Control'' ?h self) = obs self"
    by (rule assms(2))
  with h w run show ?thesis by blast
qed

theorem cache_sets_header_then_calls_witness:
  "\<exists>w. cache public_no_cache_args = Inr w \<and>
       w get set_header \<lparr>headers = [(''Server'', ''x'')], status = 200, body = ''old''\<rparr>
         [''a'', ''b''] [(''k'', ''v'')] =
       Inr (200, \<lparr>headers = [(''Server'', ''x''),
                              (''Cache-Control'', ''max-age=600, public, no-cache'')],
                  status = 200, body = ''abv''\<rparr>)"
proof -
  let ?self = "\<lparr>headers = [(''Server'', ''x'')], status = 200, body = ''old''\<rparr>"
  have a: "arg_max_age public_no_cache_args = Some (Timedelta ten_minutes)"
    by (simp add: public_no_cache_args_def)
  have frame: "\<And>name v x. (status (set_header name v x), body (set_header name v x)) =
      (status x, body x)"
    by (simp add: set_header_def)
  have h: "compute_cache_header
      \<lparr>max_age = Timedelta ten_minutes, s_max_age = PyNone, public = True,
       private' = False, no_cache = True, no_store = False, must_revalidate = False,
       proxy_revalidate = False\<rparr> = Inr ''max-age=600, public, no-cache''"
    by (simp add: compute_cache_header_def append_if_def ten_minutes_def str_int_600)
  from cache_sets_header_then_calls
    [of public_no_cache_args ten_minutes "\<lambda>x. (status x, body x)" set_header ?self get
      "[''a'', ''b'']" "[(''k'', ''v'')]", OF a frame]
  show ?thesis
    using h by (auto simp: set_header_def get_def public_no_cache_args_def)
qed

text \<open>
  Against C7 as stated: with \<^verbatim>\<open>max_age=None\<close> the construction succeeds and returns a
  configuration; the error comes later, from \<^verbatim>\<open>compute_cache_header\<close>.
\<close>

theorem null_max_age_constructs:
  "CacheConfig (only_max_age PyNone) =
     Inr \<lparr>max_age = PyNone, s_max_age = PyNone, public = False, private' = False,
          no_cache = False, no_store = False, must_revalidate = True,
          proxy_revalidate = False\<rparr> \<and>
   compute_cache_header
     \<lparr>max_age = PyNone, s_max_age = PyNone, public = False, private' = False,
      no_cache = False, no_store = False, must_revalidate = True,
      proxy_revalidate = False\<rparr> = Inl AttributeError"
  by (simp add: CacheConfig_def only_max_age_def default_to_def compute_cache_header_def)

text \<open>
  C7, amended. Building the header with \<open>max_age\<close> missing never yields a header string:
  when the argument is absent the construction itself fails, with \<^verbatim>\<open>TypeError\<close>; when
  it is \<^verbatim>\<open>None\<close> the construction succeeds and \<^verbatim>\<open>compute_cache_header\<close> fails on the
  configuration, with \<^verbatim>\<open>AttributeError\<close>.
\<close>

theorem missing_max_age_fails:
  assumes "arg_max_age a = None \<or> arg_max_age a = Some PyNone"
  shows "case CacheConfig a of
           Inl e \<Rightarrow> e = TypeError \<and> arg_max_age a = None
         | Inr c \<Rightarrow> arg_max_age a = Some PyNone \<and> compute_cache_header c = Inl AttributeError"
  using assms by (auto simp: CacheConfig_def compute_cache_header_def)

theorem missing_max_age_fails_witness:
  "CacheConfig no_args = Inl TypeError \<and>
   (\<exists>c. CacheConfig (only_max_age PyNone) = Inr c \<and>
        compute_cache_header c = Inl AttributeError)"
proof -
  have absent: "arg_max_age no_args = None \<or> arg_max_age no_args = Some PyNone"
    by (simp add: no_args_def)
  have null: "arg_max_age (only_max_age PyNone) = None \<or>
      arg_max_age (only_max_age PyNone) = Some PyNone"
    by (simp add: only_max_age_def)
  have "CacheConfig no_args = Inl TypeError"
    using missing_max_age_fails [OF absent] by (simp add: no_args_def split: sum.splits)
  moreover have "\<exists>c. CacheConfig (only_max_age PyNone) = Inr c \<and>
      compute_cache_header c = Inl AttributeError"
    using missing_max_age_fails [OF null] by (simp add: only_max_age_def split: sum.splits)
  ultimately show ?thesis by simp
qed

section \<open>The claim about the provider registry\<close>

text \<open>
  C8. In the registry of the test module the three content type strings resolve to the
  default, the vendor and the vendor-and-version provider respectively. In any registry, a
  provider that a lookup returns is registered under the type asked for and either under
  the vendor asked for or under no vendor: never under another vendor.
\<close>

theorem map_provider_precedence:
  "map_provider test_registry ''application/json'' = Inr JsonProvider \<and>
   map_provider test_registry ''application/vnd.supercell+json'' = Inr MoreDetailedJsonProvider \<and>
   map_provider test_registry ''application/vnd.supercell-v1.0+json'' =
     Inr JsonProviderWithVendorAndVersion \<and>
   (map_provider registry s = Inr p \<longrightarrow>
      (\<exists>ct. (ct, p) \<in> set registry \<and> mime_type ct = mime_type (parse_content_type s) \<and>
            (vendor ct = vendor (parse_content_type s) \<or> vendor ct = None)))"
proof (intro conjI impI)
  show "map_provider test_registry ''application/json'' = Inr JsonProvider"
    by (simp add: map_provider_def parse_content_type_def resolve_def test_registry_def)
  show "map_provider test_registry ''application/vnd.supercell+json'' =
      Inr MoreDetailedJsonProvider"
    by (simp add: map_provider_def parse_content_type_def resolve_def test_registry_def)
  show "map_provider test_registry ''application/vnd.supercell-v1.0+json'' =
      Inr JsonProviderWithVendorAndVersion"
    by (simp add: map_provider_def parse_content_type_def resolve_def test_registry_def)
next
  let ?ct = "parse_content_type s"
  assume "map_provider registry s = Inr p"
  then consider "map_of registry ?ct = Some p"
    | "map_of registry (?ct\<lparr>version := None\<rparr>) = Some p"
    | "map_of registry \<lparr>mime_type = mime_type ?ct, vendor = None, version = None\<rparr> = Some p"
    by (auto simp: map_provider_def resolve_def split: option.splits)
  then show "\<exists>ct. (ct, p) \<in> set registry \<and> mime_type ct = mime_type ?ct \<and>
            (vendor ct = vendor ?ct \<or> vendor ct = None)"
  proof cases
    case 1
    then have "(?ct, p) \<in> set registry" by (rule map_of_SomeD)
    then show ?thesis by blast
  next
    case 2
    then have "(?ct\<lparr>version := None\<rparr>, p) \<in> set registry" by (rule map_of_SomeD)
    then show ?thesis by (intro exI [of _ "?ct\<lparr>version := None\<rparr>"]) simp
  next
    case 3
    then have "(\<lparr>mime_type = mime_type ?ct, vendor = None, version = None\<rparr>, p) \<in> set registry"
      by (rule map_of_SomeD)
    then show ?thesis
      by (intro exI [of _ "\<lparr>mime_type = mime_type ?ct, vendor = None, version = None\<rparr>"]) simp
  qed
qed

theorem map_provider_precedence_witness:
  "map_provider test_registry ''application/vnd.other+json'' = Inr JsonProvider \<and>
   vendor (parse_content_type ''application/vnd.other+json'') = Some ''other'' \<and>
   (\<exists>ct. (ct, JsonProvider) \<in> set test_registry \<and> mime_type ct = ''application/json'' \<and>
         vendor ct = None)"
proof -
  have l: "map_provider test_registry ''application/vnd.other+json'' = Inr JsonProvider"
    by (simp add: map_provider_def parse_content_type_def resolve_def test_registry_def)
  have p: "parse_content_type ''application/vnd.other+json'' =
      \<lparr>mime_type = ''application/json'', vendor = Some ''other'', version = None\<rparr>"
    by (simp add: parse_content_type_def)
  from map_provider_precedence
    [of test_registry "''application/vnd.other+json''" JsonProvider, THEN conjunct2,
      THEN conjunct2, THEN conjunct2, rule_format, OF l]
  have "\<exists>ct. (ct, JsonProvider) \<in> set test_registry \<and> mime_type ct = ''application/json'' \<and>
         vendor ct = None"
    unfolding p by (auto simp: test_registry_def)
  with l p show ?thesis by simp
qed

end
